theory Spec2Isabelle
  imports Complex_Main
begin

section \<open>Python values\<close>

text \<open>
  The limiter of \<^verbatim>\<open>token_bucket.py\<close> computes with Python ints and floats. Ints are
  modelled by \<^typ>\<open>int\<close>. Floats are modelled by their exact value in \<^typ>\<open>rat\<close>: the
  rounding of binary64 arithmetic, infinities and NaN are outside the model, and every
  statement below about a float is a statement about exact arithmetic.
\<close>

datatype py_error = ValueError | ZeroDivisionError | OverflowError

text \<open>
  A number as Python holds it. The value of \<^verbatim>\<open>max(0, x)\<close> is the int \<^verbatim>\<open>0\<close> unless
  the float \<^verbatim>\<open>x\<close> is greater, and an int plus an int stays an int.
\<close>

datatype pynum = PyInt int | PyFloat rat

fun num :: "pynum \<Rightarrow> rat" where
  "num (PyInt n) = of_int n"
| "num (PyFloat q) = q"

definition py_max0 :: "rat \<Rightarrow> pynum" where
  "py_max0 x = (if 0 < x then PyFloat x else PyInt 0)"

fun py_add_int :: "pynum \<Rightarrow> int \<Rightarrow> pynum" where
  "py_add_int (PyInt m) n = PyInt (m + n)"
| "py_add_int (PyFloat q) n = PyFloat (q + of_int n)"

text \<open>\<^verbatim>\<open>int(x)\<close> of a float truncates towards zero.\<close>

definition py_trunc :: "rat \<Rightarrow> int" where
  "py_trunc x = (if 0 \<le> x then \<lfloor>x\<rfloor> else \<lceil>x\<rceil>)"

text \<open>
  \<^verbatim>\<open>round(x, ndigits)\<close> of a float: the nearest multiple of \<open>10^(-ndigits)\<close>, a tie
  going to the even one.
\<close>

definition py_round :: "rat \<Rightarrow> nat \<Rightarrow> rat" where
  "py_round x ndigits =
     (let s = x * 10 ^ ndigits;
          f = \<lfloor>s\<rfloor>;
          d = s - of_int f
      in of_int (if d < 1 / 2 then f
                 else if 1 / 2 < d then f + 1
                 else if even f then f else f + 1) / 10 ^ ndigits)"

section \<open>The Redis client\<close>

text \<open>
  A hash field holds bytes. The model keeps of them what Python's conversions see:
  \<open>IntText n\<close> is a text that \<^verbatim>\<open>int()\<close> reads as \<open>n\<close> (and \<^verbatim>\<open>float()\<close> too);
  \<open>FloatText q\<close> is a text such as \<^verbatim>\<open>500.0\<close> that only \<^verbatim>\<open>float()\<close> reads;
  \<open>Empty\<close> is the empty value, which Python takes for false; \<open>Junk\<close> is any other
  text, on which both conversions raise \<^verbatim>\<open>ValueError\<close>.
\<close>

datatype rvalue = IntText int | FloatText rat | Empty | Junk

fun truthy :: "rvalue \<Rightarrow> bool" where
  "truthy Empty = False"
| "truthy v = True"

fun py_int :: "rvalue \<Rightarrow> py_error + int" where
  "py_int (IntText n) = Inr n"
| "py_int v = Inl ValueError"

fun py_float :: "rvalue \<Rightarrow> py_error + rat" where
  "py_float (IntText n) = Inr (of_int n)"
| "py_float (FloatText q) = Inr q"
| "py_float v = Inl ValueError"

text \<open>What the client writes for a number handed to \<^verbatim>\<open>hset\<close>.\<close>

fun to_text :: "pynum \<Rightarrow> rvalue" where
  "to_text (PyInt n) = IntText n"
| "to_text (PyFloat q) = FloatText q"

text \<open>
  The store: every key names a hash (a key that does not exist is the empty hash), and a
  key may carry an expiration in seconds. Commands queued on a pipeline run in order when
  it executes, so they are modelled by the commands themselves.
\<close>

record redis =
  hashes :: "string \<Rightarrow> string \<rightharpoonup> rvalue"
  expiry :: "string \<rightharpoonup> nat"

definition hget :: "redis \<Rightarrow> string \<Rightarrow> string \<Rightarrow> rvalue option" where
  "hget r name key = hashes r name key"

definition hset :: "redis \<Rightarrow> string \<Rightarrow> (string \<rightharpoonup> rvalue) \<Rightarrow> redis" where
  "hset r name mapping = r\<lparr>hashes := (hashes r)(name := hashes r name ++ mapping)\<rparr>"

definition expire :: "redis \<Rightarrow> string \<Rightarrow> nat \<Rightarrow> redis" where
  "expire r name secs = r\<lparr>expiry := (expiry r)(name \<mapsto> secs)\<rparr>"

section \<open>The limiter\<close>

text \<open>The dict returned on rejection.\<close>

record rejection =
  error :: string
  retry_after :: rat
  tokens_requested :: nat
  tokens_available :: rat
  user_token_limit :: int

datatype decision = Admit "int list" | Reject rejection

text \<open>
  Lines 28 to 32: the user's limit. \<^verbatim>\<open>int(limit_str) if limit_str else default\<close>, with
  the \<^verbatim>\<open>ValueError\<close> of the conversion caught.
\<close>

definition resolve_limit :: "rvalue option \<Rightarrow> int \<Rightarrow> int" where
  "resolve_limit limit_str default_tokens_per_minute =
     (case limit_str of
        None \<Rightarrow> default_tokens_per_minute
      | Some v \<Rightarrow>
          if truthy v
          then (case py_int v of Inr n \<Rightarrow> n | Inl e \<Rightarrow> default_tokens_per_minute)
          else default_tokens_per_minute)"

text \<open>
  Lines 40 and 41: \<^verbatim>\<open>float(s) if s else fallback\<close>. Nothing catches the
  \<^verbatim>\<open>ValueError\<close> here.
\<close>

definition float_or :: "rvalue option \<Rightarrow> rat \<Rightarrow> py_error + rat" where
  "float_or s fallback =
     (case s of
        None \<Rightarrow> Inr fallback
      | Some v \<Rightarrow> if truthy v then py_float v else Inr fallback)"

text \<open>
  The local variables \<^verbatim>\<open>tokens_per_minute\<close>, \<^verbatim>\<open>tokens_used\<close> and
  \<^verbatim>\<open>last_refill\<close> as they stand after line 47, where the function decides.
\<close>

record working =
  tokens_per_minute :: int
  tokens_used :: pynum
  last_refill :: int

text \<open>Lines 44 to 47: the refill.\<close>

definition refill_step :: "int \<Rightarrow> int \<Rightarrow> rat \<Rightarrow> rat \<Rightarrow> working" where
  "refill_step now tpm tokens_used0 last_refill0 =
     (let elapsed = of_int now - last_refill0;
          refill = (elapsed / 60) * of_int tpm
      in \<lparr>tokens_per_minute = tpm,
          tokens_used = py_max0 (tokens_used0 - refill),
          last_refill = now\<rparr>)"

text \<open>
  Lines 24 to 47. The key templates are modelled by the functions from the user id to
  the key that \<^verbatim>\<open>str.format\<close> makes of them; \<open>clock\<close> is the reading of
  \<^verbatim>\<open>time.time()\<close>.
\<close>

definition load_and_refill ::
  "string \<Rightarrow> redis \<Rightarrow> (string \<Rightarrow> string) \<Rightarrow> (string \<Rightarrow> string) \<Rightarrow> int \<Rightarrow> rat
     \<Rightarrow> py_error + working" where
  "load_and_refill user_id redis_client config_key_template usage_key_template
       default_tokens_per_minute clock =
     (let now = py_trunc clock;
          limit_str = hget redis_client (config_key_template user_id) ''limit'';
          tpm = resolve_limit limit_str default_tokens_per_minute;
          tokens_str = hget redis_client (usage_key_template user_id) ''tokens'';
          last_refill_str = hget redis_client (usage_key_template user_id) ''last_refill''
      in case float_or tokens_str 0 of
           Inl e \<Rightarrow> Inl e
         | Inr tokens_used0 \<Rightarrow>
             (case float_or last_refill_str (of_int now) of
                Inl e \<Rightarrow> Inl e
              | Inr last_refill0 \<Rightarrow> Inr (refill_step now tpm tokens_used0 last_refill0)))"

text \<open>
  Lines 49 to 71: the decision on the working values, and the write on admission. The
  division of line 51 raises when the limit is zero. The result comes with the store as
  the call leaves it.
\<close>

definition decide ::
  "int list \<Rightarrow> string \<Rightarrow> redis \<Rightarrow> working \<Rightarrow> (py_error + decision) \<times> redis" where
  "decide token_ids usage_key redis_client w =
     (let token_count = length token_ids;
          tpm = tokens_per_minute w
      in if num (tokens_used w) + of_nat token_count > of_int tpm
         then
           (let tokens_over = (num (tokens_used w) + of_nat token_count) - of_int tpm
            in if tpm = 0 then (Inl ZeroDivisionError, redis_client)
               else
                 (let retry = (tokens_over / of_int tpm) * 60
                  in (Inr (Reject \<lparr>error = ''Rate limit exceeded'',
                                    retry_after = py_round retry 2,
                                    tokens_requested = token_count,
                                    tokens_available = max 0 (of_int tpm - num (tokens_used w)),
                                    user_token_limit = tpm\<rparr>),
                      redis_client)))
         else
           (let tokens_used' = py_add_int (tokens_used w) (int token_count);
                r1 = hset redis_client usage_key
                       [''tokens'' \<mapsto> to_text tokens_used',
                        ''last_refill'' \<mapsto> IntText (last_refill w)];
                r2 = expire r1 usage_key 120
            in (Inr (Admit token_ids), r2)))"

definition limit_and_tokenize ::
  "int list \<Rightarrow> string \<Rightarrow> redis \<Rightarrow> (string \<Rightarrow> string) \<Rightarrow> (string \<Rightarrow> string) \<Rightarrow> int \<Rightarrow> rat
     \<Rightarrow> (py_error + decision) \<times> redis" where
  "limit_and_tokenize token_ids user_id redis_client config_key_template usage_key_template
       default_tokens_per_minute clock =
     (case load_and_refill user_id redis_client config_key_template usage_key_template
             default_tokens_per_minute clock of
        Inl e \<Rightarrow> (Inl e, redis_client)
      | Inr w \<Rightarrow> decide token_ids (usage_key_template user_id) redis_client w)"

text \<open>The default key templates of the signature.\<close>

definition default_config_key :: "string \<Rightarrow> string" where
  "default_config_key user_id = ''ratelimit:config:'' @ user_id"

definition default_usage_key :: "string \<Rightarrow> string" where
  "default_usage_key user_id = ''ratelimit:'' @ user_id"

text \<open>A store with no key at all.\<close>

definition empty_redis :: redis where
  "empty_redis = \<lparr>hashes = (\<lambda>name. Map.empty), expiry = Map.empty\<rparr>"

text \<open>
  The usage that enters the decision of line 49: the value of \<^verbatim>\<open>tokens_used\<close> after
  line 46, for a stored usage, a stored \<^verbatim>\<open>last_refill\<close> and the second of the call.
\<close>

definition effective_tokens_used :: "int \<Rightarrow> rat \<Rightarrow> int \<Rightarrow> rat \<Rightarrow> rat" where
  "effective_tokens_used tpm tokens_used0 now last_refill0 =
     num (tokens_used (refill_step now tpm tokens_used0 last_refill0))"

section \<open>Example stores\<close>

text \<open>
  The store after the first scenario of the specification: a fresh user \<open>bob\<close> was
  admitted with 500 tokens at second 100 under the default limit of 1000.
\<close>

definition bob_half :: redis where
  "bob_half =
     \<lparr>hashes = (\<lambda>name. Map.empty)
        (''ratelimit:bob'' := [''tokens'' \<mapsto> IntText 500, ''last_refill'' \<mapsto> IntText 100]),
      expiry = [''ratelimit:bob'' \<mapsto> 120]\<rparr>"

text \<open>The same user with the whole default limit used up at second 100.\<close>

definition bob_full :: redis where
  "bob_full =
     \<lparr>hashes = (\<lambda>name. Map.empty)
        (''ratelimit:bob'' := [''tokens'' \<mapsto> IntText 1000, ''last_refill'' \<mapsto> IntText 100]),
      expiry = [''ratelimit:bob'' \<mapsto> 120]\<rparr>"

text \<open>
  The third scenario of the specification: a user with the override \<open>limit = 100\<close> and
  no usage yet.
\<close>

definition dave_small :: redis where
  "dave_small =
     \<lparr>hashes = (\<lambda>name. Map.empty)(''ratelimit:config:dave'' := [''limit'' \<mapsto> IntText 100]),
      expiry = Map.empty\<rparr>"

text \<open>A user with the override \<open>limit = 60000\<close>, used up at second 100.\<close>

definition erin_fast :: redis where
  "erin_fast =
     \<lparr>hashes = (\<lambda>name. Map.empty)
        (''ratelimit:config:erin'' := [''limit'' \<mapsto> IntText 60000],
         ''ratelimit:erin'' := [''tokens'' \<mapsto> IntText 60000, ''last_refill'' \<mapsto> IntText 100]),
      expiry = [''ratelimit:erin'' \<mapsto> 120]\<rparr>"

text \<open>Users whose stored limit is the text \<^verbatim>\<open>0\<close>, or \<^verbatim>\<open>-5\<close>.\<close>

definition carol_zero :: redis where
  "carol_zero =
     \<lparr>hashes = (\<lambda>name. Map.empty)(''ratelimit:config:carol'' := [''limit'' \<mapsto> IntText 0]),
      expiry = Map.empty\<rparr>"

definition carol_negative :: redis where
  "carol_negative =
     \<lparr>hashes = (\<lambda>name. Map.empty)(''ratelimit:config:carol'' := [''limit'' \<mapsto> IntText (- 5)]),
      expiry = Map.empty\<rparr>"

text \<open>A user whose stored limit is the text \<^verbatim>\<open>0\<close> and whose usage is unreadable.\<close>

definition carol_zero_junk :: redis where
  "carol_zero_junk =
     \<lparr>hashes = (\<lambda>name. Map.empty)
        (''ratelimit:config:carol'' := [''limit'' \<mapsto> IntText 0],
         ''ratelimit:carol'' := [''tokens'' \<mapsto> Junk, ''last_refill'' \<mapsto> IntText 100]),
      expiry = Map.empty\<rparr>"

section \<open>Basic facts\<close>

lemmas eval_defs = limit_and_tokenize_def load_and_refill_def decide_def refill_step_def
  resolve_limit_def float_or_def hget_def hset_def expire_def py_trunc_def py_max0_def
  py_round_def default_config_key_def default_usage_key_def empty_redis_def Let_def

lemma num_py_max0: "num (py_max0 x) = max 0 x"
  by (simp add: py_max0_def)

lemma num_py_add_int: "num (py_add_int p n) = num p + of_int n"
  by (cases p) simp_all

lemma py_float_to_text: "py_float (to_text p) = Inr (num p)"
  by (cases p) simp_all

lemma lat_fst:
  "fst (limit_and_tokenize token_ids user_id r cfg usg d clock) =
     (case load_and_refill user_id r cfg usg d clock of
        Inl e \<Rightarrow> Inl e
      | Inr w \<Rightarrow> fst (decide token_ids (usg user_id) r w))"
  by (simp add: limit_and_tokenize_def split: sum.splits)

lemma lat_cases:
  assumes "limit_and_tokenize token_ids user_id r cfg usg d clock = (Inr dec, r')"
  obtains w where "load_and_refill user_id r cfg usg d clock = Inr w"
    and "decide token_ids (usg user_id) r w = (Inr dec, r')"
  using assms by (auto simp: limit_and_tokenize_def split: sum.splits)

lemma decide_admit:
  assumes "decide token_ids k r w = (Inr (Admit out), r')"
  shows "out = token_ids"
    and "num (tokens_used w) + of_nat (length token_ids) \<le> of_int (tokens_per_minute w)"
    and "r' = expire (hset r k
                 [''tokens'' \<mapsto> to_text (py_add_int (tokens_used w) (int (length token_ids))),
                  ''last_refill'' \<mapsto> IntText (last_refill w)]) k 120"
  using assms by (auto simp: decide_def Let_def split: if_splits)

lemma decide_reject:
  assumes "decide token_ids k r w = (Inr (Reject p), r')"
  shows "of_int (tokens_per_minute w) < num (tokens_used w) + of_nat (length token_ids)"
    and "tokens_per_minute w \<noteq> 0"
    and "p = \<lparr>error = ''Rate limit exceeded'',
              retry_after =
                py_round (((num (tokens_used w) + of_nat (length token_ids)
                            - of_int (tokens_per_minute w)) / of_int (tokens_per_minute w)) * 60) 2,
              tokens_requested = length token_ids,
              tokens_available = max 0 (of_int (tokens_per_minute w) - num (tokens_used w)),
              user_token_limit = tokens_per_minute w\<rparr>"
    and "r' = r"
  using assms by (auto simp: decide_def Let_def split: if_splits)

lemma load_and_refill_working:
  assumes "load_and_refill user_id r cfg usg d clock = Inr w"
  shows "last_refill w = py_trunc clock"
    and "tokens_per_minute w = resolve_limit (hget r (cfg user_id) ''limit'') d"
    and "0 \<le> num (tokens_used w)"
  using assms
  by (auto simp: load_and_refill_def refill_step_def Let_def num_py_max0 split: sum.splits)

lemma floor_rat_numeral_div [simp]:
  "\<lfloor>numeral a / numeral b :: rat\<rfloor> = numeral a div numeral b"
  using floor_divide_of_int_eq [of "numeral a" "numeral b", where ?'a = rat] by simp

lemma floor_rat_one_div [simp]:
  "\<lfloor>1 / numeral b :: rat\<rfloor> = 1 div numeral b"
  using floor_divide_of_int_eq [of 1 "numeral b", where ?'a = rat] by simp

lemma resolve_limit_cases:
  "resolve_limit None d = d"
  "resolve_limit (Some Empty) d = d"
  "resolve_limit (Some Junk) d = d"
  "resolve_limit (Some (FloatText q)) d = d"
  "resolve_limit (Some (IntText n)) d = n"
  by (simp_all add: resolve_limit_def)

lemma float_or_error: "float_or s fallback = Inl e \<Longrightarrow> e = ValueError"
  by (cases s; simp add: float_or_def split: if_splits)
     (metis py_float.elims sum.distinct(1) Inl_inject)

lemma load_and_refill_error:
  "load_and_refill user_id r cfg usg d clock = Inl e \<Longrightarrow> e = ValueError"
  by (auto simp: load_and_refill_def Let_def split: sum.splits dest: float_or_error)

lemma load_and_refill_stored:
  assumes "load_and_refill user_id r cfg usg d clock = Inr w"
  obtains t0 l0 where "float_or (hget r (usg user_id) ''tokens'') 0 = Inr t0"
    and "float_or (hget r (usg user_id) ''last_refill'') (of_int (py_trunc clock)) = Inr l0"
    and "w = refill_step (py_trunc clock) (resolve_limit (hget r (cfg user_id) ''limit'') d) t0 l0"
  using assms by (auto simp: load_and_refill_def Let_def split: sum.splits)

lemma num_refill_step:
  "num (tokens_used (refill_step now tpm t0 l0)) =
     max 0 (t0 - ((of_int now - l0) / 60) * of_int tpm)"
  by (simp add: refill_step_def Let_def num_py_max0)

lemma tokens_per_minute_refill_step: "tokens_per_minute (refill_step now tpm t0 l0) = tpm"
  by (simp add: refill_step_def Let_def)

lemma effective_tokens_used_eq:
  "effective_tokens_used tpm t0 now l0 = max 0 (t0 - ((of_int now - l0) / 60) * of_int tpm)"
  by (simp add: effective_tokens_used_def num_refill_step)

text \<open>
  The arithmetic behind a retry: once the second of the call has moved on by the time the
  missing tokens take to refill, a request that fits the limit fits the bucket.
\<close>

lemma refill_enough:
  fixes t0 l0 :: rat
  assumes pos: "0 < tpm" and fits: "of_nat c \<le> (of_int tpm :: rat)"
    and wait: "((max 0 (t0 - ((of_int n1 - l0) / 60) * of_int tpm) + of_nat c - of_int tpm)
                  / of_int tpm) * 60 \<le> of_int n2 - of_int n1"
  shows "max 0 (t0 - ((of_int n2 - l0) / 60) * of_int tpm) + of_nat c \<le> of_int tpm"
proof -
  let ?P = "of_int tpm :: rat"
  let ?u1 = "max 0 (t0 - ((of_int n1 - l0) / 60) * ?P)"
  have P: "0 < ?P" using pos by simp
  from wait have "(?u1 + of_nat c - ?P) * 60 \<le> (of_int n2 - of_int n1) * ?P"
    using P by (simp add: pos_divide_le_eq field_simps)
  then have gained: "?u1 + of_nat c - ?P \<le> ((of_int n2 - of_int n1) / 60) * ?P"
    by simp
  have split: "t0 - ((of_int n2 - l0) / 60) * ?P =
      (t0 - ((of_int n1 - l0) / 60) * ?P) - ((of_int n2 - of_int n1) / 60) * ?P"
    by (simp add: field_simps)
  have "t0 - ((of_int n1 - l0) / 60) * ?P \<le> ?u1" by simp
  with gained split have "t0 - ((of_int n2 - l0) / 60) * ?P \<le> ?P - of_nat c"
    by linarith
  moreover have "0 \<le> ?P - of_nat c" using fits by simp
  ultimately show ?thesis by (simp add: max_def)
qed

section \<open>The admit decision\<close>

text \<open>
  Claim C4. Whenever the usage after the refill plus the number of requested tokens equals
  the limit exactly, the call is admitted; a call is rejected only when that sum is
  strictly greater than the limit.
\<close>

theorem boundary_equality_admits:
  assumes "load_and_refill user_id r cfg usg d clock = Inr w"
  shows "(num (tokens_used w) + of_nat (length token_ids) = of_int (tokens_per_minute w) \<longrightarrow>
            fst (limit_and_tokenize token_ids user_id r cfg usg d clock) = Inr (Admit token_ids))
       \<and> (\<forall>p. fst (limit_and_tokenize token_ids user_id r cfg usg d clock) = Inr (Reject p) \<longrightarrow>
            of_int (tokens_per_minute w) < num (tokens_used w) + of_nat (length token_ids))"
proof (intro conjI impI allI)
  assume "num (tokens_used w) + of_nat (length token_ids) = of_int (tokens_per_minute w)"
  then show "fst (limit_and_tokenize token_ids user_id r cfg usg d clock) = Inr (Admit token_ids)"
    using assms by (simp add: lat_fst decide_def Let_def)
next
  fix p
  assume "fst (limit_and_tokenize token_ids user_id r cfg usg d clock) = Inr (Reject p)"
  with assms have "fst (decide token_ids (usg user_id) r w) = Inr (Reject p)"
    by (simp add: lat_fst)
  then have "decide token_ids (usg user_id) r w =
      (Inr (Reject p), snd (decide token_ids (usg user_id) r w))"
    by (metis prod.collapse)
  then show "of_int (tokens_per_minute w) < num (tokens_used w) + of_nat (length token_ids)"
    by (rule decide_reject(1))
qed

theorem boundary_equality_admits_witness:
  "load_and_refill ''bob'' bob_half default_config_key default_usage_key 1000 100 =
     Inr \<lparr>tokens_per_minute = 1000, tokens_used = PyFloat 500, last_refill = 100\<rparr>
   \<and> fst (limit_and_tokenize (replicate 500 7) ''bob'' bob_half default_config_key
            default_usage_key 1000 100) = Inr (Admit (replicate 500 7))
   \<and> fst (limit_and_tokenize (replicate 501 7) ''bob'' bob_half default_config_key
            default_usage_key 1000 100) =
       Inr (Reject \<lparr>error = ''Rate limit exceeded'', retry_after = 3 / 50,
                    tokens_requested = 501, tokens_available = 500, user_token_limit = 1000\<rparr>)
   \<and> (1000 :: rat) < 500 + 501"
proof -
  let ?w = "\<lparr>tokens_per_minute = 1000, tokens_used = PyFloat 500, last_refill = 100\<rparr>"
  have h: "load_and_refill ''bob'' bob_half default_config_key default_usage_key 1000 100 = Inr ?w"
    by (simp add: eval_defs bob_half_def)
  have a: "fst (limit_and_tokenize (replicate 500 7) ''bob'' bob_half default_config_key
            default_usage_key 1000 100) = Inr (Admit (replicate 500 7))"
    using boundary_equality_admits [OF h, of "replicate 500 7"] by simp
  have r: "fst (limit_and_tokenize (replicate 501 7) ''bob'' bob_half default_config_key
            default_usage_key 1000 100) =
       Inr (Reject \<lparr>error = ''Rate limit exceeded'', retry_after = 3 / 50,
                    tokens_requested = 501, tokens_available = 500, user_token_limit = 1000\<rparr>)"
    by (simp add: eval_defs bob_half_def)
  from boundary_equality_admits [OF h, of "replicate 501 7"] r
  have "(1000 :: rat) < 500 + 501" by simp
  with h a r show ?thesis by simp
qed

text \<open>
  Claim C5. An admitted call returns \<^verbatim>\<open>token_ids\<close> unchanged. In the hash of the
  user's usage key it sets \<^verbatim>\<open>tokens\<close> to the usage after the refill plus the number
  of requested tokens and \<^verbatim>\<open>last_refill\<close> to the second of the call, it leaves every
  other key as it was, and it sets the expiration of the usage key to 120 seconds.
\<close>

theorem admit_persists_usage:
  assumes "limit_and_tokenize token_ids user_id r cfg usg d clock = (Inr (Admit out), r')"
  shows "out = token_ids
       \<and> (\<exists>w. load_and_refill user_id r cfg usg d clock = Inr w
            \<and> (\<exists>t. hashes r' (usg user_id) =
                      (hashes r (usg user_id))
                        (''tokens'' \<mapsto> t, ''last_refill'' \<mapsto> IntText (py_trunc clock))
                  \<and> py_float t = Inr (num (tokens_used w) + of_nat (length token_ids))))
       \<and> (\<forall>name. name \<noteq> usg user_id \<longrightarrow> hashes r' name = hashes r name)
       \<and> expiry r' = (expiry r)(usg user_id \<mapsto> 120)"
proof -
  from assms obtain w where w: "load_and_refill user_id r cfg usg d clock = Inr w"
    and dec: "decide token_ids (usg user_id) r w = (Inr (Admit out), r')"
    by (rule lat_cases)
  let ?t = "to_text (py_add_int (tokens_used w) (int (length token_ids)))"
  note adm = decide_admit [OF dec]
  have now: "last_refill w = py_trunc clock"
    using w by (rule load_and_refill_working(1))
  have t: "py_float ?t = Inr (num (tokens_used w) + of_nat (length token_ids))"
    by (simp add: py_float_to_text num_py_add_int)
  have h: "hashes r' (usg user_id) =
      (hashes r (usg user_id))(''tokens'' \<mapsto> ?t, ''last_refill'' \<mapsto> IntText (py_trunc clock))"
    using adm(3) now by (simp add: hset_def expire_def)
  have others: "\<forall>name. name \<noteq> usg user_id \<longrightarrow> hashes r' name = hashes r name"
    using adm(3) by (simp add: hset_def expire_def)
  have e: "expiry r' = (expiry r)(usg user_id \<mapsto> 120)"
    using adm(3) by (simp add: hset_def expire_def)
  from adm(1) w h t others e show ?thesis by blast
qed

text \<open>
  The first scenario of the specification: a fresh user, 500 tokens, second 100.
\<close>

theorem admit_persists_usage_witness:
  "limit_and_tokenize (replicate 500 7) ''bob'' empty_redis default_config_key default_usage_key
       1000 100 = (Inr (Admit (replicate 500 7)), bob_half)
   \<and> hashes bob_half ''ratelimit:bob'' =
       [''tokens'' \<mapsto> IntText 500, ''last_refill'' \<mapsto> IntText 100]
   \<and> expiry bob_half = [''ratelimit:bob'' \<mapsto> 120]"
proof -
  have h: "limit_and_tokenize (replicate 500 7) ''bob'' empty_redis default_config_key
      default_usage_key 1000 100 = (Inr (Admit (replicate 500 7)), bob_half)"
    by (simp add: eval_defs bob_half_def fun_eq_iff)
  from admit_persists_usage [OF h] h show ?thesis
    by (simp add: empty_redis_def default_usage_key_def py_trunc_def bob_half_def)
qed

section \<open>Rejection\<close>

text \<open>
  Claim C6. A rejected call leaves the store as it found it: the \<^verbatim>\<open>tokens\<close> and
  \<^verbatim>\<open>last_refill\<close> fields of the usage key and its expiration are what they were.
\<close>

theorem reject_leaves_usage_untouched:
  assumes "limit_and_tokenize token_ids user_id r cfg usg d clock = (Inr (Reject p), r')"
  shows "r' = r
       \<and> hget r' (usg user_id) ''tokens'' = hget r (usg user_id) ''tokens''
       \<and> hget r' (usg user_id) ''last_refill'' = hget r (usg user_id) ''last_refill''
       \<and> expiry r' (usg user_id) = expiry r (usg user_id)"
proof -
  from assms obtain w where "decide token_ids (usg user_id) r w = (Inr (Reject p), r')"
    by (rule lat_cases)
  then have "r' = r" by (rule decide_reject(4))
  then show ?thesis by simp
qed

text \<open>
  The second scenario of the specification: 600 more tokens in the same second.
\<close>

theorem reject_leaves_usage_untouched_witness:
  "limit_and_tokenize (replicate 600 7) ''bob'' bob_half default_config_key default_usage_key
       1000 100 =
     (Inr (Reject \<lparr>error = ''Rate limit exceeded'', retry_after = 6,
                   tokens_requested = 600, tokens_available = 500, user_token_limit = 1000\<rparr>),
      bob_half)
   \<and> hget bob_half (default_usage_key ''bob'') ''tokens'' = Some (IntText 500)
   \<and> hget bob_half (default_usage_key ''bob'') ''last_refill'' = Some (IntText 100)
   \<and> expiry bob_half (default_usage_key ''bob'') = Some 120"
proof -
  have h: "limit_and_tokenize (replicate 600 7) ''bob'' bob_half default_config_key
      default_usage_key 1000 100 =
     (Inr (Reject \<lparr>error = ''Rate limit exceeded'', retry_after = 6,
                   tokens_requested = 600, tokens_available = 500, user_token_limit = 1000\<rparr>),
      bob_half)"
    by (simp add: eval_defs bob_half_def)
  from reject_leaves_usage_untouched [OF h] h show ?thesis
    by (simp add: hget_def default_usage_key_def bob_half_def)
qed

text \<open>
  Claim C7. The dict of a rejected call has \<^verbatim>\<open>retry_after\<close> equal to
  \<open>((tokens_used + len(token_ids) - tokens_per_minute) / tokens_per_minute) * 60\<close> rounded to
  two decimals and \<^verbatim>\<open>tokens_available\<close> equal to
  \<open>max(0, tokens_per_minute - tokens_used)\<close>, for the usage after the refill; with a limit
  of 1000, a usage of 500 after the refill and 600 requested tokens these are 6 and 500.
\<close>

theorem rejection_payload:
  assumes "limit_and_tokenize token_ids user_id r cfg usg d clock = (Inr (Reject p), r')"
  shows "\<exists>w. load_and_refill user_id r cfg usg d clock = Inr w
           \<and> tokens_per_minute w \<noteq> 0
           \<and> retry_after p =
               py_round (((num (tokens_used w) + of_nat (length token_ids)
                           - of_int (tokens_per_minute w)) / of_int (tokens_per_minute w)) * 60) 2
           \<and> tokens_available p = max 0 (of_int (tokens_per_minute w) - num (tokens_used w))
           \<and> tokens_requested p = length token_ids
           \<and> user_token_limit p = tokens_per_minute w
           \<and> (tokens_per_minute w = 1000 \<and> num (tokens_used w) = 500 \<and> length token_ids = 600
                \<longrightarrow> retry_after p = 6 \<and> tokens_available p = 500)"
proof -
  from assms obtain w where w: "load_and_refill user_id r cfg usg d clock = Inr w"
    and dec: "decide token_ids (usg user_id) r w = (Inr (Reject p), r')"
    by (rule lat_cases)
  note rej = decide_reject [OF dec]
  have "tokens_per_minute w = 1000 \<and> num (tokens_used w) = 500 \<and> length token_ids = 600
          \<longrightarrow> retry_after p = 6 \<and> tokens_available p = 500"
    by (simp add: rej(3) py_round_def)
  with w rej(2) show ?thesis
    by (intro exI [of _ w]) (simp add: rej(3))
qed

text \<open>
  The second scenario of the specification again.
\<close>

theorem rejection_payload_witness:
  "limit_and_tokenize (replicate 600 7) ''bob'' bob_half default_config_key default_usage_key
       1000 100 =
     (Inr (Reject \<lparr>error = ''Rate limit exceeded'', retry_after = 6,
                   tokens_requested = 600, tokens_available = 500, user_token_limit = 1000\<rparr>),
      bob_half)
   \<and> load_and_refill ''bob'' bob_half default_config_key default_usage_key 1000 100 =
       Inr \<lparr>tokens_per_minute = 1000, tokens_used = PyFloat 500, last_refill = 100\<rparr>
   \<and> py_round ((((500 :: rat) + 600 - 1000) / 1000) * 60) 2 = 6
   \<and> max 0 ((1000 :: rat) - 500) = 500"
proof -
  have h: "limit_and_tokenize (replicate 600 7) ''bob'' bob_half default_config_key
      default_usage_key 1000 100 =
     (Inr (Reject \<lparr>error = ''Rate limit exceeded'', retry_after = 6,
                   tokens_requested = 600, tokens_available = 500, user_token_limit = 1000\<rparr>),
      bob_half)"
    by (simp add: eval_defs bob_half_def)
  have w: "load_and_refill ''bob'' bob_half default_config_key default_usage_key 1000 100 =
       Inr \<lparr>tokens_per_minute = 1000, tokens_used = PyFloat 500, last_refill = 100\<rparr>"
    by (simp add: eval_defs bob_half_def)
  from rejection_payload [OF h] h w show ?thesis
    by simp
qed

section \<open>The refill\<close>

text \<open>
  Claim C8. For a positive limit and a fixed stored usage, the usage that enters the
  decision is \<open>max(0, tokens_used - (elapsed / 60) * tokens_per_minute)\<close>; it is never
  negative, it does not grow when the elapsed time grows, and it falls strictly as long as
  it has not reached 0.
\<close>

theorem refill_monotone:
  assumes "0 < tpm"
  shows "0 \<le> effective_tokens_used tpm t0 now l0
       \<and> effective_tokens_used tpm t0 now l0 =
           max 0 (t0 - ((of_int now - l0) / 60) * of_int tpm)
       \<and> (\<forall>now' l0'. of_int now - l0 < of_int now' - l0' \<longrightarrow>
             effective_tokens_used tpm t0 now' l0' \<le> effective_tokens_used tpm t0 now l0
           \<and> (0 < effective_tokens_used tpm t0 now l0 \<longrightarrow>
                effective_tokens_used tpm t0 now' l0' < effective_tokens_used tpm t0 now l0))"
proof -
  have mono: "t0 - (e' / 60) * of_int tpm < t0 - (e / 60) * of_int tpm"
    if "e < e'" for e e' :: rat
  proof -
    have "0 < (of_int tpm :: rat)" using assms by simp
    then have "(e / 60) * of_int tpm < (e' / 60) * of_int tpm"
      using that by (simp add: divide_strict_right_mono)
    then show ?thesis by simp
  qed
  show ?thesis
    unfolding effective_tokens_used_eq
    by (intro conjI allI impI; (drule mono)?) (simp_all add: max_def split: if_splits)
qed

text \<open>
  A stored usage of 1000 under a limit of 1000: 500 are left after 30 seconds, 250 after
  45, none after 90.
\<close>

theorem refill_monotone_witness:
  "(0 :: int) < 1000
   \<and> effective_tokens_used 1000 1000 130 100 = 500
   \<and> effective_tokens_used 1000 1000 145 100 = 250
   \<and> effective_tokens_used 1000 1000 145 100 < effective_tokens_used 1000 1000 130 100
   \<and> effective_tokens_used 1000 1000 190 100 = 0"
proof -
  have pos: "(0 :: int) < 1000" by simp
  have a: "effective_tokens_used 1000 1000 130 100 = 500"
    and b: "effective_tokens_used 1000 1000 145 100 = 250"
    and c: "effective_tokens_used 1000 1000 190 100 = 0"
    by (simp_all add: effective_tokens_used_eq)
  from refill_monotone [OF pos, of 1000 130 100]
  have "\<forall>now' l0'. (of_int 130 :: rat) - 100 < of_int now' - l0' \<longrightarrow>
          (0 < effective_tokens_used 1000 1000 130 100 \<longrightarrow>
             effective_tokens_used 1000 1000 now' l0' < effective_tokens_used 1000 1000 130 100)"
    by blast
  then have "(of_int 130 :: rat) - 100 < of_int 145 - 100 \<longrightarrow>
          (0 < effective_tokens_used 1000 1000 130 100 \<longrightarrow>
             effective_tokens_used 1000 1000 145 100 < effective_tokens_used 1000 1000 130 100)"
    by blast
  then have "effective_tokens_used 1000 1000 145 100 < effective_tokens_used 1000 1000 130 100"
    by (simp add: a)
  with pos a b c show ?thesis by simp
qed

text \<open>
  Claim C3. On every call that reaches the refill, the working \<^verbatim>\<open>last_refill\<close> is
  the second of the call, whichever way the decision goes. An admitted call stores it. A
  rejected call stores nothing, so the next call starts again from the stored pair: its
  usage is the stored \<^verbatim>\<open>tokens\<close> less one refill for the whole time since the stored
  \<^verbatim>\<open>last_refill\<close>, and the refill that the rejected call computed is not taken off a
  second time.
\<close>

theorem refill_sets_last_refill:
  assumes "load_and_refill user_id r cfg usg d clock = Inr w"
  shows "last_refill w = py_trunc clock
       \<and> (\<forall>token_ids out r'.
             limit_and_tokenize token_ids user_id r cfg usg d clock = (Inr (Admit out), r') \<longrightarrow>
               hget r' (usg user_id) ''last_refill'' = Some (IntText (py_trunc clock)))
       \<and> (\<forall>token_ids p r' clock2 w2.
             limit_and_tokenize token_ids user_id r cfg usg d clock = (Inr (Reject p), r')
             \<and> load_and_refill user_id r' cfg usg d clock2 = Inr w2 \<longrightarrow>
               (\<exists>t0 l0. float_or (hget r (usg user_id) ''tokens'') 0 = Inr t0
                  \<and> float_or (hget r (usg user_id) ''last_refill'') (of_int (py_trunc clock2)) = Inr l0
                  \<and> num (tokens_used w2) =
                      max 0 (t0 - ((of_int (py_trunc clock2) - l0) / 60)
                                    * of_int (tokens_per_minute w2))))"
proof (intro conjI allI impI)
  show "last_refill w = py_trunc clock"
    using assms by (rule load_and_refill_working(1))
next
  fix token_ids out r'
  assume "limit_and_tokenize token_ids user_id r cfg usg d clock = (Inr (Admit out), r')"
  then obtain w' where w': "load_and_refill user_id r cfg usg d clock = Inr w'"
    and dec: "decide token_ids (usg user_id) r w' = (Inr (Admit out), r')"
    by (rule lat_cases)
  have "last_refill w' = py_trunc clock"
    using w' by (rule load_and_refill_working(1))
  with decide_admit(3) [OF dec]
  show "hget r' (usg user_id) ''last_refill'' = Some (IntText (py_trunc clock))"
    by (simp add: hget_def hset_def expire_def)
next
  fix token_ids p r' clock2 w2
  assume a: "limit_and_tokenize token_ids user_id r cfg usg d clock = (Inr (Reject p), r')
             \<and> load_and_refill user_id r' cfg usg d clock2 = Inr w2"
  then obtain w' where "decide token_ids (usg user_id) r w' = (Inr (Reject p), r')"
    by (blast elim: lat_cases)
  then have "r' = r" by (rule decide_reject(4))
  with a have "load_and_refill user_id r cfg usg d clock2 = Inr w2" by simp
  then obtain t0 l0 where "float_or (hget r (usg user_id) ''tokens'') 0 = Inr t0"
    and "float_or (hget r (usg user_id) ''last_refill'') (of_int (py_trunc clock2)) = Inr l0"
    and "w2 = refill_step (py_trunc clock2) (resolve_limit (hget r (cfg user_id) ''limit'') d) t0 l0"
    by (rule load_and_refill_stored)
  then show "\<exists>t0 l0. float_or (hget r (usg user_id) ''tokens'') 0 = Inr t0
                  \<and> float_or (hget r (usg user_id) ''last_refill'') (of_int (py_trunc clock2)) = Inr l0
                  \<and> num (tokens_used w2) =
                      max 0 (t0 - ((of_int (py_trunc clock2) - l0) / 60)
                                    * of_int (tokens_per_minute w2))"
    by (simp add: num_refill_step tokens_per_minute_refill_step)
qed

text \<open>
  The user of the first scenario at second 112, where 300 tokens are in use: 700 more are
  admitted and 112 is stored; 800 are rejected, and a retry at second 118 sees the stored
  500 less the refill of 18 seconds.
\<close>

theorem refill_sets_last_refill_witness:
  "load_and_refill ''bob'' bob_half default_config_key default_usage_key 1000 112 =
     Inr \<lparr>tokens_per_minute = 1000, tokens_used = PyFloat 300, last_refill = 112\<rparr>
   \<and> hget (snd (limit_and_tokenize (replicate 700 7) ''bob'' bob_half default_config_key
                  default_usage_key 1000 112)) (default_usage_key ''bob'') ''last_refill''
       = Some (IntText 112)
   \<and> limit_and_tokenize (replicate 800 7) ''bob'' bob_half default_config_key default_usage_key
        1000 112 =
       (Inr (Reject \<lparr>error = ''Rate limit exceeded'', retry_after = 6,
                     tokens_requested = 800, tokens_available = 700, user_token_limit = 1000\<rparr>),
        bob_half)
   \<and> load_and_refill ''bob'' bob_half default_config_key default_usage_key 1000 118 =
       Inr \<lparr>tokens_per_minute = 1000, tokens_used = PyFloat 200, last_refill = 118\<rparr>
   \<and> (200 :: rat) = max 0 (500 - ((118 - 100) / 60) * 1000)"
proof -
  let ?w = "\<lparr>tokens_per_minute = 1000, tokens_used = PyFloat 300, last_refill = 112\<rparr>"
  let ?w2 = "\<lparr>tokens_per_minute = 1000, tokens_used = PyFloat 200, last_refill = 118\<rparr>"
  let ?p = "\<lparr>error = ''Rate limit exceeded'', retry_after = 6,
             tokens_requested = 800, tokens_available = 700, user_token_limit = 1000\<rparr>"
  let ?r' = "\<lparr>hashes = (\<lambda>name. Map.empty)
         (''ratelimit:bob'' := [''tokens'' \<mapsto> FloatText 1000, ''last_refill'' \<mapsto> IntText 112]),
       expiry = [''ratelimit:bob'' \<mapsto> 120]\<rparr>"
  have h: "load_and_refill ''bob'' bob_half default_config_key default_usage_key 1000 112 = Inr ?w"
    by (simp add: eval_defs bob_half_def)
  have adm: "limit_and_tokenize (replicate 700 7) ''bob'' bob_half default_config_key
      default_usage_key 1000 112 = (Inr (Admit (replicate 700 7)), ?r')"
    by (simp add: eval_defs bob_half_def fun_eq_iff)
  have rej: "limit_and_tokenize (replicate 800 7) ''bob'' bob_half default_config_key
      default_usage_key 1000 112 = (Inr (Reject ?p), bob_half)"
    by (simp add: eval_defs bob_half_def)
  have h2: "load_and_refill ''bob'' bob_half default_config_key default_usage_key 1000 118 = Inr ?w2"
    by (simp add: eval_defs bob_half_def)
  note main = refill_sets_last_refill [OF h]
  have stored: "hget ?r' (default_usage_key ''bob'') ''last_refill'' =
      Some (IntText (py_trunc 112))"
    by (rule main [THEN conjunct2, THEN conjunct1, rule_format, OF adm])
  have "\<exists>t0 l0.
      float_or (hget bob_half (default_usage_key ''bob'') ''tokens'') 0 = Inr t0
      \<and> float_or (hget bob_half (default_usage_key ''bob'') ''last_refill'')
            (of_int (py_trunc 118)) = Inr l0
      \<and> num (tokens_used ?w2) =
          max 0 (t0 - ((of_int (py_trunc 118) - l0) / 60) * of_int (tokens_per_minute ?w2))"
    by (rule main [THEN conjunct2, THEN conjunct2, rule_format, OF conjI [OF rej h2]])
  then have credit: "(200 :: rat) = max 0 (500 - ((118 - 100) / 60) * 1000)"
    by (simp add: float_or_def hget_def default_usage_key_def bob_half_def py_trunc_def)
  have stored': "hget (snd (limit_and_tokenize (replicate 700 7) ''bob'' bob_half
      default_config_key default_usage_key 1000 112)) (default_usage_key ''bob'') ''last_refill''
       = Some (IntText 112)"
    using stored by (simp only: adm snd_conv) (simp add: py_trunc_def)
  from h stored' rej h2 credit show ?thesis
    by (intro conjI)
qed

section \<open>Retrying after a rejection\<close>

text \<open>
  Claim C2, as the specification states it, fails. Waiting the returned
  \<^verbatim>\<open>retry_after\<close> does not lead to admission when the request is larger than the
  limit (150 tokens under a limit of 100, third scenario), when the wait does not move the
  whole second that \<^verbatim>\<open>int(time.time())\<close> reads far enough (0.06 seconds), or when the
  rounding to two decimals has lowered the value (1.001 seconds returned as 1.0).
\<close>

theorem retry_after_not_enough:
  "fst (limit_and_tokenize (replicate 150 7) ''dave'' dave_small default_config_key
          default_usage_key 1000 1000) =
     Inr (Reject \<lparr>error = ''Rate limit exceeded'', retry_after = 30,
                  tokens_requested = 150, tokens_available = 100, user_token_limit = 100\<rparr>)
   \<and> fst (limit_and_tokenize (replicate 150 7) ''dave'' dave_small default_config_key
          default_usage_key 1000 (1000 + 30)) =
     Inr (Reject \<lparr>error = ''Rate limit exceeded'', retry_after = 30,
                  tokens_requested = 150, tokens_available = 100, user_token_limit = 100\<rparr>)
   \<and> fst (limit_and_tokenize [7] ''bob'' bob_full default_config_key default_usage_key 1000 100) =
     Inr (Reject \<lparr>error = ''Rate limit exceeded'', retry_after = 3 / 50,
                  tokens_requested = 1, tokens_available = 0, user_token_limit = 1000\<rparr>)
   \<and> fst (limit_and_tokenize [7] ''bob'' bob_full default_config_key default_usage_key 1000
            (100 + 3 / 50)) =
     Inr (Reject \<lparr>error = ''Rate limit exceeded'', retry_after = 3 / 50,
                  tokens_requested = 1, tokens_available = 0, user_token_limit = 1000\<rparr>)
   \<and> fst (limit_and_tokenize (replicate 1001 7) ''erin'' erin_fast default_config_key
            default_usage_key 1000 100) =
     Inr (Reject \<lparr>error = ''Rate limit exceeded'', retry_after = 1,
                  tokens_requested = 1001, tokens_available = 0, user_token_limit = 60000\<rparr>)
   \<and> fst (limit_and_tokenize (replicate 1001 7) ''erin'' erin_fast default_config_key
            default_usage_key 1000 (100 + 1)) =
     Inr (Reject \<lparr>error = ''Rate limit exceeded'', retry_after = 0,
                  tokens_requested = 1001, tokens_available = 1000, user_token_limit = 60000\<rparr>)"
  by (simp add: eval_defs dave_small_def bob_full_def erin_fast_def)

text \<open>
  Claim C2, amended. After a rejection under a positive limit, of a request that is no
  larger than the limit and with a \<^verbatim>\<open>last_refill\<close> in the store, a call of the same
  user with as many tokens on the store as the rejection left it is admitted at any time
  whose whole second is at least \<open>(tokens_over / tokens_per_minute) * 60\<close> seconds, not
  rounded, after the whole second of the rejected call.
\<close>

theorem retry_admits_once_refilled:
  assumes rej: "limit_and_tokenize token_ids user_id r cfg usg d clock = (Inr (Reject p), r')"
    and w: "load_and_refill user_id r cfg usg d clock = Inr w"
    and pos: "0 < tokens_per_minute w"
    and fits: "int (length token_ids) \<le> tokens_per_minute w"
    and stored: "hget r (usg user_id) ''last_refill'' = Some v" "truthy v"
    and same: "length token_ids' = length token_ids"
    and wait: "((num (tokens_used w) + of_nat (length token_ids) - of_int (tokens_per_minute w))
                  / of_int (tokens_per_minute w)) * 60
               \<le> of_int (py_trunc clock') - of_int (py_trunc clock)"
  shows "fst (limit_and_tokenize token_ids' user_id r' cfg usg d clock') = Inr (Admit token_ids')"
proof -
  let ?tpm = "resolve_limit (hget r (cfg user_id) ''limit'') d"
  from rej obtain w0 where "decide token_ids (usg user_id) r w0 = (Inr (Reject p), r')"
    by (rule lat_cases)
  then have same_store: "r' = r" by (rule decide_reject(4))
  from w obtain t0 l0 where t0: "float_or (hget r (usg user_id) ''tokens'') 0 = Inr t0"
    and l0: "float_or (hget r (usg user_id) ''last_refill'') (of_int (py_trunc clock)) = Inr l0"
    and w_eq: "w = refill_step (py_trunc clock) ?tpm t0 l0"
    by (rule load_and_refill_stored)
  from l0 stored have l0': "float_or (hget r (usg user_id) ''last_refill'') (of_int (py_trunc clock')) = Inr l0"
    by (simp add: float_or_def)
  let ?w' = "refill_step (py_trunc clock') ?tpm t0 l0"
  have w': "load_and_refill user_id r cfg usg d clock' = Inr ?w'"
    using t0 l0' by (simp add: load_and_refill_def Let_def)
  have tpm: "tokens_per_minute w = ?tpm"
    by (simp add: w_eq tokens_per_minute_refill_step)
  have fits': "of_nat (length token_ids) \<le> (of_int ?tpm :: rat)"
  proof -
    have "(of_int (int (length token_ids)) :: rat) \<le> of_int ?tpm"
      using fits tpm by (simp only: of_int_le_iff)
    then show ?thesis by simp
  qed
  have "max 0 (t0 - ((of_int (py_trunc clock') - l0) / 60) * of_int ?tpm)
          + of_nat (length token_ids) \<le> of_int ?tpm"
  proof (rule refill_enough)
    show "0 < ?tpm" using pos tpm by simp
    show "of_nat (length token_ids) \<le> (of_int ?tpm :: rat)" by (rule fits')
    show "((max 0 (t0 - ((of_int (py_trunc clock) - l0) / 60) * of_int ?tpm)
              + of_nat (length token_ids) - of_int ?tpm) / of_int ?tpm) * 60
            \<le> of_int (py_trunc clock') - of_int (py_trunc clock)"
      using wait by (simp add: w_eq num_refill_step tokens_per_minute_refill_step)
  qed
  then have "\<not> of_int (tokens_per_minute ?w') < num (tokens_used ?w') + of_nat (length token_ids')"
    by (simp add: num_refill_step tokens_per_minute_refill_step same)
  then have "fst (decide token_ids' (usg user_id) r ?w') = Inr (Admit token_ids')"
    by (simp add: decide_def Let_def)
  with w' same_store show ?thesis by (simp add: lat_fst)
qed

text \<open>
  The second scenario of the specification: the retry 6 seconds later is admitted.
\<close>

theorem retry_admits_once_refilled_witness:
  "limit_and_tokenize (replicate 600 7) ''bob'' bob_half default_config_key default_usage_key
       1000 100 =
     (Inr (Reject \<lparr>error = ''Rate limit exceeded'', retry_after = 6,
                   tokens_requested = 600, tokens_available = 500, user_token_limit = 1000\<rparr>),
      bob_half)
   \<and> load_and_refill ''bob'' bob_half default_config_key default_usage_key 1000 100 =
       Inr \<lparr>tokens_per_minute = 1000, tokens_used = PyFloat 500, last_refill = 100\<rparr>
   \<and> hget bob_half (default_usage_key ''bob'') ''last_refill'' = Some (IntText 100)
   \<and> fst (limit_and_tokenize (replicate 600 8) ''bob'' bob_half default_config_key
            default_usage_key 1000 (100 + 6)) = Inr (Admit (replicate 600 8))"
proof -
  let ?p = "\<lparr>error = ''Rate limit exceeded'', retry_after = 6,
             tokens_requested = 600, tokens_available = 500, user_token_limit = 1000\<rparr>"
  let ?w = "\<lparr>tokens_per_minute = 1000, tokens_used = PyFloat 500, last_refill = 100\<rparr>"
  have rej: "limit_and_tokenize (replicate 600 7) ''bob'' bob_half default_config_key
      default_usage_key 1000 100 = (Inr (Reject ?p), bob_half)"
    by (simp add: eval_defs bob_half_def)
  have w: "load_and_refill ''bob'' bob_half default_config_key default_usage_key 1000 100 = Inr ?w"
    by (simp add: eval_defs bob_half_def)
  have stored: "hget bob_half (default_usage_key ''bob'') ''last_refill'' = Some (IntText 100)"
    by (simp add: hget_def default_usage_key_def bob_half_def)
  have "fst (limit_and_tokenize (replicate 600 8) ''bob'' bob_half default_config_key
            default_usage_key 1000 (100 + 6)) = Inr (Admit (replicate 600 8))"
    by (rule retry_admits_once_refilled [OF rej w _ _ stored]) (simp_all add: py_trunc_def)
  with rej w stored show ?thesis by simp
qed

section \<open>The stored limit\<close>

text \<open>
  Claim C9, as stated, fails: with a stored limit of 0 not every call with a token reaches
  the rejection branch. When a usage field is unreadable, \<^verbatim>\<open>float()\<close> raises
  \<^verbatim>\<open>ValueError\<close> at line 40 first.
\<close>

theorem zero_limit_unreadable_usage:
  "hget carol_zero_junk (default_config_key ''carol'') ''limit'' = Some (IntText 0)
   \<and> [7 :: int] \<noteq> []
   \<and> limit_and_tokenize [7] ''carol'' carol_zero_junk default_config_key default_usage_key
        1000 100 = (Inl ValueError, carol_zero_junk)"
  by (simp add: eval_defs carol_zero_junk_def)

text \<open>
  Claim C9, amended. When the stored limit reads as the integer 0, the limit of the call is
  0 and not the default, and a call with at least one token never returns a decision. If
  its usage fields are absent, empty or numeric it reaches line 49, takes the rejection
  branch, and the division of line 51 raises \<^verbatim>\<open>ZeroDivisionError\<close>; otherwise it
  raises the \<^verbatim>\<open>ValueError\<close> of line 40 or 41. The store is left as it was.
\<close>

theorem zero_limit_raises:
  assumes "hget r (cfg user_id) ''limit'' = Some (IntText 0)" and "token_ids \<noteq> []"
  shows "resolve_limit (hget r (cfg user_id) ''limit'') d = 0
       \<and> (\<exists>e. limit_and_tokenize token_ids user_id r cfg usg d clock = (Inl e, r))
       \<and> (\<forall>w. load_and_refill user_id r cfg usg d clock = Inr w \<longrightarrow>
             tokens_per_minute w = 0
           \<and> of_int (tokens_per_minute w) < num (tokens_used w) + of_nat (length token_ids)
           \<and> limit_and_tokenize token_ids user_id r cfg usg d clock = (Inl ZeroDivisionError, r))
       \<and> (\<forall>e. load_and_refill user_id r cfg usg d clock = Inl e \<longrightarrow>
             e = ValueError
           \<and> limit_and_tokenize token_ids user_id r cfg usg d clock = (Inl ValueError, r))"
proof -
  have lim: "resolve_limit (hget r (cfg user_id) ''limit'') d = 0"
    using assms(1) by (simp add: resolve_limit_cases)
  have len: "0 < length token_ids" using assms(2) by simp
  have reached: "tokens_per_minute w = 0
           \<and> of_int (tokens_per_minute w) < num (tokens_used w) + of_nat (length token_ids)
           \<and> limit_and_tokenize token_ids user_id r cfg usg d clock = (Inl ZeroDivisionError, r)"
    if w: "load_and_refill user_id r cfg usg d clock = Inr w" for w
  proof -
    have tpm: "tokens_per_minute w = 0"
      using load_and_refill_working(2) [OF w] lim by simp
    have nonneg: "0 \<le> num (tokens_used w)" using w by (rule load_and_refill_working(3))
    have pos: "(0 :: rat) < of_nat (length token_ids)" using len by simp
    have over: "of_int (tokens_per_minute w) < num (tokens_used w) + of_nat (length token_ids)"
      using add_nonneg_pos [OF nonneg pos] by (simp only: tpm of_int_0)
    then have "decide token_ids (usg user_id) r w = (Inl ZeroDivisionError, r)"
      using tpm by (simp add: decide_def Let_def)
    with w tpm over show ?thesis by (simp add: limit_and_tokenize_def)
  qed
  have unread: "e = ValueError
           \<and> limit_and_tokenize token_ids user_id r cfg usg d clock = (Inl ValueError, r)"
    if e: "load_and_refill user_id r cfg usg d clock = Inl e" for e
  proof -
    have "e = ValueError" using e by (rule load_and_refill_error)
    with e show ?thesis by (simp add: limit_and_tokenize_def)
  qed
  have "\<exists>e. limit_and_tokenize token_ids user_id r cfg usg d clock = (Inl e, r)"
  proof (cases "load_and_refill user_id r cfg usg d clock")
    case (Inl e)
    then show ?thesis by (simp add: limit_and_tokenize_def)
  next
    case (Inr w)
    then show ?thesis using reached by blast
  qed
  with lim reached unread show ?thesis by blast
qed

text \<open>
  A user whose stored limit is the text \<^verbatim>\<open>0\<close>, one token, default 1000.
\<close>

theorem zero_limit_raises_witness:
  "hget carol_zero (default_config_key ''carol'') ''limit'' = Some (IntText 0)
   \<and> [7 :: int] \<noteq> []
   \<and> load_and_refill ''carol'' carol_zero default_config_key default_usage_key 1000 100 =
       Inr \<lparr>tokens_per_minute = 0, tokens_used = PyInt 0, last_refill = 100\<rparr>
   \<and> limit_and_tokenize [7] ''carol'' carol_zero default_config_key default_usage_key 1000 100 =
       (Inl ZeroDivisionError, carol_zero)"
proof -
  have l: "hget carol_zero (default_config_key ''carol'') ''limit'' = Some (IntText 0)"
    by (simp add: hget_def default_config_key_def carol_zero_def)
  have n: "[7 :: int] \<noteq> []" by simp
  have w: "load_and_refill ''carol'' carol_zero default_config_key default_usage_key 1000 100 =
       Inr \<lparr>tokens_per_minute = 0, tokens_used = PyInt 0, last_refill = 100\<rparr>"
    by (simp add: eval_defs carol_zero_def)
  from zero_limit_raises
      [where r = carol_zero and cfg = default_config_key and user_id = "''carol''"
         and token_ids = "[7]" and d = 1000 and usg = default_usage_key and clock = 100, OF l n]
    l w show ?thesis
    by simp
qed

text \<open>
  Claim C1 at a stored limit that is not positive. The specification has the default
  used there, silently; the code takes the stored 0 or -5 for the limit. With 0 the call
  raises \<^verbatim>\<open>ZeroDivisionError\<close>, with -5 it is rejected with a negative
  \<^verbatim>\<open>retry_after\<close>.
\<close>

theorem non_positive_override_is_used:
  "load_and_refill ''carol'' carol_zero default_config_key default_usage_key 1000 100 =
     Inr \<lparr>tokens_per_minute = 0, tokens_used = PyInt 0, last_refill = 100\<rparr>
   \<and> limit_and_tokenize [7] ''carol'' carol_zero default_config_key default_usage_key 1000 100 =
       (Inl ZeroDivisionError, carol_zero)
   \<and> load_and_refill ''carol'' carol_negative default_config_key default_usage_key 1000 100 =
     Inr \<lparr>tokens_per_minute = - 5, tokens_used = PyInt 0, last_refill = 100\<rparr>
   \<and> limit_and_tokenize [7] ''carol'' carol_negative default_config_key default_usage_key 1000 100 =
       (Inr (Reject \<lparr>error = ''Rate limit exceeded'', retry_after = - 72,
                    tokens_requested = 1, tokens_available = 0, user_token_limit = - 5\<rparr>),
        carol_negative)"
  by (simp add: eval_defs carol_zero_def carol_negative_def)

section \<open>The stored usage\<close>

text \<open>
  Claim C10. The \<^verbatim>\<open>tokens\<close> value that an admitted call stores is the usage after
  the refill, which is at least 0, plus the number of requested tokens; it lies between 0
  and the limit of that call. This holds from any store, so at every call of a sequential
  run.
\<close>

theorem persisted_usage_within_limit:
  assumes "limit_and_tokenize token_ids user_id r cfg usg d clock = (Inr (Admit out), r')"
  shows "\<exists>w t v. load_and_refill user_id r cfg usg d clock = Inr w
           \<and> hget r' (usg user_id) ''tokens'' = Some t
           \<and> py_float t = Inr v
           \<and> v = num (tokens_used w) + of_nat (length token_ids)
           \<and> 0 \<le> num (tokens_used w)
           \<and> 0 \<le> v \<and> v \<le> of_int (tokens_per_minute w)"
proof -
  from assms obtain w where w: "load_and_refill user_id r cfg usg d clock = Inr w"
    and dec: "decide token_ids (usg user_id) r w = (Inr (Admit out), r')"
    by (rule lat_cases)
  let ?t = "to_text (py_add_int (tokens_used w) (int (length token_ids)))"
  let ?v = "num (tokens_used w) + of_nat (length token_ids)"
  note adm = decide_admit [OF dec]
  have nonneg: "0 \<le> num (tokens_used w)"
    using w by (rule load_and_refill_working(3))
  have "hget r' (usg user_id) ''tokens'' = Some ?t"
    using adm(3) by (simp add: hget_def hset_def expire_def)
  moreover have "py_float ?t = Inr ?v"
    by (simp add: py_float_to_text num_py_add_int)
  moreover have "0 \<le> ?v" using nonneg by simp
  ultimately show ?thesis using w adm(2) nonneg by blast
qed

text \<open>
  The user of the first scenario asks for 500 more tokens in the same second: the stored
  usage is the limit itself.
\<close>

theorem persisted_usage_within_limit_witness:
  "limit_and_tokenize (replicate 500 7) ''bob'' bob_half default_config_key default_usage_key
       1000 100 =
     (Inr (Admit (replicate 500 7)),
      \<lparr>hashes = (\<lambda>name. Map.empty)
         (''ratelimit:bob'' := [''tokens'' \<mapsto> FloatText 1000, ''last_refill'' \<mapsto> IntText 100]),
       expiry = [''ratelimit:bob'' \<mapsto> 120]\<rparr>)
   \<and> py_float (FloatText 1000) = Inr 1000 \<and> (0 :: rat) \<le> 1000 \<and> (1000 :: rat) \<le> of_int 1000"
proof -
  have h: "limit_and_tokenize (replicate 500 7) ''bob'' bob_half default_config_key
      default_usage_key 1000 100 =
     (Inr (Admit (replicate 500 7)),
      \<lparr>hashes = (\<lambda>name. Map.empty)
         (''ratelimit:bob'' := [''tokens'' \<mapsto> FloatText 1000, ''last_refill'' \<mapsto> IntText 100]),
       expiry = [''ratelimit:bob'' \<mapsto> 120]\<rparr>)"
    by (simp add: eval_defs bob_half_def fun_eq_iff)
  from persisted_usage_within_limit [OF h] h show ?thesis
    by simp
qed

end
